theory Spec2Isabelle
  imports Complex_Main "HOL-Library.AList" "HOL-Library.Multiset"
begin

section \<open>Conventions of the embedding\<close>

text \<open>
  The C++ sources under \<open>TradingSystem/\<close> are embedded function by function.

  \<^item> A \<open>double\<close> is modelled by an exact rational (\<open>rat\<close>). On the price grid of
    multiples of \<open>1/256\<close> below 1000 every value the code computes is a dyadic rational
    that binary64 represents exactly, so the arithmetic of the code and of the model agree
    there. NaN and infinities are outside the model.
  \<^item> A \<open>long\<close> or \<open>int\<close> is modelled by an unbounded \<open>int\<close>; signed overflow is
    undefined behaviour in C++ and is outside the model.
  \<^item> A \<open>std::map\<close> that is only looked up, inserted into and erased from is a partial
    function; a container that the code iterates over is a list.
  \<^item> A thrown exception is the \<open>Inl\<close> of a sum; an out-of-range \<open>vector::operator[]\<close>
    (undefined behaviour) is the error \<open>Out_of_bounds\<close>.
  \<^item> A service notifies its listeners by calling \<open>ProcessAdd\<close> on each of them in
    registration order. The embedding keeps the registered listeners as a list of handles
    and returns the calls a function makes as a list of pairs (listener, argument), in the
    order in which they are made.
\<close>

datatype error = Invalid_argument | Out_of_range | Out_of_bounds

type_synonym 'a result = "error + 'a"

definition bind_result :: "'a result \<Rightarrow> ('a \<Rightarrow> 'b result) \<Rightarrow> 'b result" where
  "bind_result r f = (case r of Inl e \<Rightarrow> Inl e | Inr v \<Rightarrow> f v)"

text \<open>The calls \<open>listener->ProcessAdd(data)\<close> of the loop \<open>for (auto& listener : listeners)\<close>.\<close>

definition notify :: "'l list \<Rightarrow> 'v \<Rightarrow> ('l \<times> 'v) list" where
  "notify ls d = map (\<lambda>l. (l, d)) ls"

section \<open>The standard library functions the sources call\<close>

definition isdigit :: "char \<Rightarrow> bool" where
  "isdigit c = (c \<in> set ''0123456789'')"

definition isspace :: "char \<Rightarrow> bool" where
  "isspace c = (c \<in> {CHR '' '', CHR 0x09, CHR 0x0A, CHR 0x0B, CHR 0x0C, CHR 0x0D})"

definition digit_char :: "nat \<Rightarrow> char" where
  "digit_char d = ''0123456789'' ! d"

text \<open>The value \<open>c - '0'\<close> of a digit character.\<close>

definition digit_val :: "char \<Rightarrow> nat" where
  "digit_val c = of_char c - 48"

definition digits_val :: "string \<Rightarrow> nat" where
  "digits_val ds = foldl (\<lambda>acc c. 10 * acc + digit_val c) 0 ds"

fun to_string_nat :: "nat \<Rightarrow> string" where
  "to_string_nat n =
     (if n < 10 then [digit_char n] else to_string_nat (n div 10) @ [digit_char (n mod 10)])"

declare to_string_nat.simps [simp del]

text \<open>\<open>std::to_string\<close> on an integer.\<close>

definition to_string :: "int \<Rightarrow> string" where
  "to_string i = (if i < 0 then ''-'' @ to_string_nat (nat (- i)) else to_string_nat (nat i))"

text \<open>
  The sign that \<open>strtod\<close> and \<open>strtol\<close> accept after the leading white space: the pair is
  (negative, rest of the string).
\<close>

definition read_sign :: "string \<Rightarrow> bool \<times> string" where
  "read_sign s =
     (case s of
        [] \<Rightarrow> (False, s)
      | c # r \<Rightarrow> if c = CHR ''-'' then (True, r) else if c = CHR ''+'' then (False, r)
                 else (False, s))"

text \<open>
  \<open>std::stod\<close> on decimal input: leading white space, an optional sign, digits, an optional
  point and more digits; whatever follows is ignored; \<open>std::invalid_argument\<close> when no
  conversion can be done. Exponents, hexadecimal input, \<open>inf\<close> and \<open>nan\<close> are not
  modelled (none fits in a string of one or two characters), and the value is the exact
  decimal value rather than its nearest double.
\<close>

definition stod :: "string \<Rightarrow> rat result" where
  "stod str =
     (let (neg, s1) = read_sign (dropWhile isspace str);
          ip = takeWhile isdigit s1;
          s2 = dropWhile isdigit s1;
          fp = (case s2 of [] \<Rightarrow> [] | c # r \<Rightarrow> if c = CHR ''.'' then takeWhile isdigit r else [])
      in if ip = [] \<and> fp = [] then Inl Invalid_argument
         else let v = of_nat (digits_val ip) + of_nat (digits_val fp) / 10 ^ length fp
              in Inr (if neg then - v else v))"


text \<open>\<open>std::string::find(char)\<close>: the index of the first occurrence, \<open>None\<close> for \<open>npos\<close>.\<close>

fun find_char :: "char \<Rightarrow> string \<Rightarrow> nat option" where
  "find_char c [] = None"
| "find_char c (x # xs) =
     (if x = c then Some 0 else (case find_char c xs of None \<Rightarrow> None | Some i \<Rightarrow> Some (Suc i)))"

text \<open>\<open>std::string::substr(pos, n)\<close>: \<open>std::out_of_range\<close> when \<open>pos\<close> is beyond the end.\<close>

definition substr :: "string \<Rightarrow> nat \<Rightarrow> nat \<Rightarrow> string result" where
  "substr s pos n = (if length s < pos then Inl Out_of_range else Inr (take n (drop pos s)))"




text \<open>The integer division and remainder of C++, which truncate towards zero.\<close>

definition cdiv :: "int \<Rightarrow> int \<Rightarrow> int" where
  "cdiv a b = sgn a * sgn b * (\<bar>a\<bar> div \<bar>b\<bar>)"

definition cmod :: "int \<Rightarrow> int \<Rightarrow> int" where
  "cmod a b = sgn a * (\<bar>a\<bar> mod \<bar>b\<bar>)"

text \<open>\<open>round\<close> of \<open><cmath>\<close>: to the nearest integer, halfway cases away from zero.\<close>

definition cround :: "rat \<Rightarrow> rat" where
  "cround x = (if 0 \<le> x then of_int \<lfloor>x + 1 / 2\<rfloor> else of_int \<lceil>x - 1 / 2\<rceil>)"

section \<open>functions.hpp\<close>

text \<open>
  \<open>double convertPrice(const string&)\<close>: from the fractional notation to a decimal price.
  The branch for the character \<open>+\<close> evaluates the comparison \<open>dec2 == "4"\<close> and discards
  it: \<open>dec2\<close> is left as it was. Each \<open>stod\<close> can only throw \<open>invalid_argument\<close>, so the
  order in which the three calls are evaluated does not show.
\<close>

definition convertPrice_of_string :: "string \<Rightarrow> rat result" where
  "convertPrice_of_string priceStr =
     (case find_char CHR ''-'' priceStr of
        None \<Rightarrow> Inl Invalid_argument
      | Some dashPos \<Rightarrow>
          if dashPos + 3 > length priceStr then Inl Invalid_argument
          else
            bind_result (substr priceStr 0 dashPos) (\<lambda>intpart.
            bind_result (substr priceStr (dashPos + 1) 2) (\<lambda>dec1.
            bind_result (substr priceStr (dashPos + 3) 1) (\<lambda>dec2.
              let dec2' = (if dec2 = ''+'' then (let unused = (dec2 = ''4'') in dec2) else dec2)
              in bind_result (stod intpart) (\<lambda>a.
                 bind_result (stod dec1) (\<lambda>b.
                 bind_result (stod dec2') (\<lambda>c.
                   Inr (a + b * 1 / 32 + c * 1 / 256))))))))"

text \<open>\<open>string convertPrice(double)\<close>: from a decimal price to the fractional notation.\<close>

definition convertPrice_of_double :: "rat \<Rightarrow> string" where
  "convertPrice_of_double price =
     (let intPart = \<lfloor>price\<rfloor>;
          fractionalPart = price - of_int intPart;
          totalTicks = \<lfloor>cround (fractionalPart * 256)\<rfloor>;
          xy = cdiv totalTicks 8;
          z = cmod totalTicks 8
      in to_string intPart @ ''-'' @ (if xy < 10 then ''0'' else []) @ to_string xy @ to_string z)"

text \<open>
  Modelled from the spec: \<open>products.hpp\<close> is not among the sources. A \<open>Bond\<close> carries
  what the constructor calls of \<open>getProductObject\<close> pass: the identifier, the identifier
  kind, the ticker, the coupon and the maturity date (kept as the string given to
  \<open>from_string\<close>). \<open>GetProductId\<close> returns the identifier.
\<close>

datatype BondIdType = CUSIP | ISIN

record Bond =
  productId :: string
  bondIdType :: BondIdType
  ticker :: string
  coupon :: rat
  maturityDate :: string

definition GetProductId :: "Bond \<Rightarrow> string" where
  "GetProductId b = productId b"

definition mkBond :: "string \<Rightarrow> BondIdType \<Rightarrow> string \<Rightarrow> rat \<Rightarrow> string \<Rightarrow> Bond" where
  "mkBond i k t c m =
     \<lparr>productId = i, bondIdType = k, ticker = t, coupon = c, maturityDate = m\<rparr>"



section \<open>inquiryservice.hpp\<close>

datatype Side = BUY | SELL

datatype InquiryState = RECEIVED | QUOTED | DONE | REJECTED | CUSTOMER_REJECTED

record Inquiry =
  inquiryId :: string
  inq_product :: Bond
  inq_side :: Side
  inq_quantity :: int
  inq_price :: rat
  state :: InquiryState

text \<open>The service: its store \<open>inquirys\<close> and its registered listeners.\<close>

record 'l InquiryService =
  inquirys :: "string \<rightharpoonup> Inquiry"
  inq_listeners :: "'l list"

text \<open>
  \<open>InquiryService::OnMessage\<close> and \<open>InquiryConnector::Publish\<close> call each other. Both
  take the inquiry by reference, so each returns the inquiry as the call leaves it,
  together with the service and the listener calls made, in order.
  In the branch for \<open>QUOTED\<close> the entry is erased when present and then inserted
  (\<open>map::insert\<close> stores only under an absent key), and the test that follows erases it
  again, since the state is now \<open>DONE\<close>.
\<close>

function InquiryService_OnMessage :: "Inquiry \<Rightarrow> 'l InquiryService \<Rightarrow> Inquiry \<times> 'l InquiryService \<times> ('l \<times> Inquiry) list"
  and InquiryConnector_Publish :: "Inquiry \<Rightarrow> 'l InquiryService \<Rightarrow> Inquiry \<times> 'l InquiryService \<times> ('l \<times> Inquiry) list"
where
  "InquiryService_OnMessage data s =
     (let st = state data;
          iid = inquiryId data;
          (data1, s1, calls1) =
            (if st = RECEIVED then InquiryConnector_Publish data s
             else if st = QUOTED then
               (let d = data\<lparr>state := DONE\<rparr>;
                    m = (if inquirys s iid \<noteq> None then (inquirys s)(iid := None) else inquirys s);
                    m' = (if m iid = None then m(iid \<mapsto> d) else m)
                in (d, s\<lparr>inquirys := m'\<rparr>, []))
             else (data, s, []));
          s2 = (if state data1 = DONE
                then s1\<lparr>inquirys := (inquirys s1)(inquiryId data1 := None)\<rparr>
                else s1\<lparr>inquirys := (inquirys s1)(inquiryId data1 \<mapsto> data1)\<rparr>)
      in (data1, s2, calls1 @ notify (inq_listeners s2) data1))"
| "InquiryConnector_Publish data s =
     (if state data = RECEIVED then
        (let d1 = data\<lparr>state := QUOTED\<rparr>;
             (d2, s2, calls2) = InquiryService_OnMessage d1 s;
             d3 = d2\<lparr>state := DONE\<rparr>;
             (d4, s4, calls4) = InquiryService_OnMessage d3 s2
         in (d4, s4, calls2 @ calls4))
      else (data, s, []))"
  by pat_completeness auto

termination
  by (relation "measure (\<lambda>x. case x of
          Inl (d, s) \<Rightarrow> (if state d = RECEIVED then 2 else 0)
        | Inr (d, s) \<Rightarrow> 1)") auto

declare InquiryService_OnMessage.simps [simp del] InquiryConnector_Publish.simps [simp del]



section \<open>marketdataservice.hpp\<close>

datatype PricingSide = BID | OFFER

record Order =
  ord_price :: rat
  ord_quantity :: int
  ord_side :: PricingSide

record BidOffer =
  bidOrder :: Order
  offerOrder :: Order

record OrderBook =
  ob_product :: Bond
  bidStack :: "Order list"
  offerStack :: "Order list"

text \<open>
  \<open>std::max_element\<close> and \<open>std::min_element\<close> with the comparison of prices: the first
  of the largest, and the first of the smallest; \<open>None\<close> is the end iterator of an empty
  range.
\<close>

fun max_element :: "Order list \<Rightarrow> Order option" where
  "max_element [] = None"
| "max_element (x # xs) =
     Some (foldl (\<lambda>largest y. if ord_price largest < ord_price y then y else largest) x xs)"

fun min_element :: "Order list \<Rightarrow> Order option" where
  "min_element [] = None"
| "min_element (x # xs) =
     Some (foldl (\<lambda>smallest y. if ord_price y < ord_price smallest then y else smallest) x xs)"

text \<open>
  \<open>OrderBook::GetBestBidOffer\<close>. Dereferencing the end iterator of an empty stack is
  undefined behaviour.
\<close>

definition GetBestBidOffer :: "OrderBook \<Rightarrow> BidOffer result" where
  "GetBestBidOffer b =
     (case (max_element (bidStack b), min_element (offerStack b)) of
        (Some bestBid, Some bestOffer) \<Rightarrow> Inr \<lparr>bidOrder = bestBid, offerOrder = bestOffer\<rparr>
      | _ \<Rightarrow> Inl Out_of_bounds)"

text \<open>
  The statement \<open>aggMap[price] += quantity\<close> on an \<open>unordered_map<double, long>\<close>: a new
  key starts from the value-initialised 0. The entries are kept in the order in which
  their keys were first inserted.
\<close>

definition agg_add :: "(rat \<times> int) list \<Rightarrow> Order \<Rightarrow> (rat \<times> int) list" where
  "agg_add m ord =
     (case map_of m (ord_price ord) of
        None \<Rightarrow> m @ [(ord_price ord, 0 + ord_quantity ord)]
      | Some v \<Rightarrow> AList.update (ord_price ord) (v + ord_quantity ord) m)"

definition aggregate_stack ::
  "((rat \<times> int) list \<Rightarrow> (rat \<times> int) list) \<Rightarrow> PricingSide \<Rightarrow> Order list \<Rightarrow> Order list" where
  "aggregate_stack iter sd stack =
     map (\<lambda>item. \<lparr>ord_price = fst item, ord_quantity = snd item, ord_side = sd\<rparr>)
       (iter (foldl agg_add [] stack))"

record MarketDataService =
  orderBooks :: "string \<rightharpoonup> OrderBook"
  bookDepth :: int

text \<open>
  \<open>MarketDataService::AggregateDepth\<close>. The order in which an \<open>unordered_map\<close> yields its
  entries is unspecified: \<open>iter\<close> is that order, applied to the entries in the order of
  their insertion. \<open>orderBooks[_productId]\<close> inserts a default-constructed book under an
  absent key; its product is the default-constructed \<open>Bond\<close> of \<open>products.hpp\<close>, which is
  not among the sources and is the parameter \<open>dflt\<close>. The result is the aggregated book
  and the service with that book stored.
\<close>

definition AggregateDepth ::
  "((rat \<times> int) list \<Rightarrow> (rat \<times> int) list) \<Rightarrow> Bond \<Rightarrow> string \<Rightarrow> MarketDataService
     \<Rightarrow> OrderBook \<times> MarketDataService" where
  "AggregateDepth iter dflt pid s =
     (let orderBook = (case orderBooks s pid of
                         None \<Rightarrow> \<lparr>ob_product = dflt, bidStack = [], offerStack = []\<rparr>
                       | Some b \<Rightarrow> b);
          aggregatedBids = aggregate_stack iter BID (bidStack orderBook);
          aggregatedOffers = aggregate_stack iter OFFER (offerStack orderBook);
          orderBook' = \<lparr>ob_product = ob_product orderBook, bidStack = aggregatedBids,
                        offerStack = aggregatedOffers\<rparr>
      in (orderBook', s\<lparr>orderBooks := (orderBooks s)(pid \<mapsto> orderBook')\<rparr>))"

section \<open>algoexecutionservice.hpp\<close>

datatype OrderType = FOK | IOC | MARKET | LIMIT | STOP

datatype Market = BROKERTEC | ESPEED | CME

record ExecutionOrder =
  eo_product :: Bond
  eo_side :: PricingSide
  orderId :: string
  orderType :: OrderType
  eo_price :: rat
  visibleQuantity :: int
  hiddenQuantity :: int
  parentOrderId :: string
  isChildOrder :: bool

record AlgoExecution =
  executionOrder :: ExecutionOrder
  market :: Market

record 'l AlgoExecutionService =
  algoExecutions :: "string \<rightharpoonup> AlgoExecution"
  ae_listeners :: "'l list"
  ae_count :: int

text \<open>
  \<open>AlgoExecutionService::AlgoExecuteOrder\<close>. The two strings \<open>rnd11\<close> and \<open>rnd10\<close> are
  what the two calls of \<open>GenerateRandomId\<close> return. The locals \<open>side\<close>, \<open>price\<close> and
  \<open>quantity\<close> are declared without initialiser and assigned only under the test on the
  spread; \<open>indet\<close> is their indeterminate content, which the constructor of the order
  reads when the test fails. The order is constructed, stored and passed to every
  listener on both paths; \<open>count\<close> is incremented on both paths.
\<close>

definition AlgoExecuteOrder ::
  "string \<Rightarrow> string \<Rightarrow> PricingSide \<times> rat \<times> int \<Rightarrow> OrderBook \<Rightarrow> 'l AlgoExecutionService
     \<Rightarrow> ('l AlgoExecutionService \<times> ('l \<times> AlgoExecution) list) result" where
  "AlgoExecuteOrder rnd11 rnd10 indet orderBook s =
     (let prod = ob_product orderBook;
          key = GetProductId prod;
          oid = ''A'' @ rnd11;
          poid = ''AP'' @ rnd10
      in bind_result (GetBestBidOffer orderBook) (\<lambda>bidOffer.
         let bid = bidOrder bidOffer;
             offer = offerOrder bidOffer;
             bidPrice = ord_price bid;
             offerPrice = ord_price offer;
             bidQuantity = ord_quantity bid;
             offerQuantity = ord_quantity offer;
             (sd, pr, qty) =
               (if offerPrice - bidPrice \<le> 1 / 128 then
                  (let sd = (if cmod (ae_count s) 2 = 0 then BID else OFFER)
                   in (sd, if sd = BID then offerPrice else bidPrice,
                           if sd = BID then bidQuantity else offerQuantity))
                else indet);
             count' = ae_count s + 1;
             eo = \<lparr>eo_product = prod, eo_side = sd, orderId = oid, orderType = MARKET,
                   eo_price = pr, visibleQuantity = qty, hiddenQuantity = 0,
                   parentOrderId = poid, isChildOrder = False\<rparr>;
             algoExecution = \<lparr>executionOrder = eo, market = BROKERTEC\<rparr>;
             m = (if algoExecutions s key \<noteq> None then (algoExecutions s)(key := None)
                  else algoExecutions s);
             m' = (if m key = None then m(key \<mapsto> algoExecution) else m)
         in Inr (s\<lparr>algoExecutions := m', ae_count := count'\<rparr>,
                 notify (ae_listeners s) algoExecution)))"

section \<open>GUIservice.hpp\<close>

record Price =
  pr_product :: Bond
  mid :: rat
  bidOfferSpread :: rat

text \<open>
  A reading of \<open>system_clock\<close> is an integer count of clock ticks, a million to the
  millisecond (the nanosecond clock of libstdc++). The file \<open>gui.txt\<close> is the list of the
  lines appended to it, each the clock reading of its time stamp and the price written.
\<close>

record GUIService =
  guis :: "string \<rightharpoonup> Price"
  throttle :: int
  cur_time :: int
  gui_file :: "(int \<times> Price) list"

text \<open>The constructor: \<open>start\<close> is the clock reading it takes.\<close>

definition GUIService_init :: "int \<Rightarrow> GUIService" where
  "GUIService_init start =
     \<lparr>guis = Map.empty, throttle = 300, cur_time = start, gui_file = []\<rparr>"

text \<open>\<open>GUIConnector::Publish\<close>: \<open>stamp\<close> is the clock reading of \<open>getTimeStamp\<close>.\<close>

definition GUIConnector_Publish :: "int \<Rightarrow> Price \<Rightarrow> GUIService \<Rightarrow> GUIService" where
  "GUIConnector_Publish stamp p s = s\<lparr>gui_file := gui_file s @ [(stamp, p)]\<rparr>"

text \<open>
  \<open>GUIService::PublishThrottledPrice\<close>: \<open>now\<close> is the clock reading it takes;
  \<open>duration_cast\<close> to milliseconds truncates towards zero.
\<close>

definition PublishThrottledPrice :: "int \<Rightarrow> int \<Rightarrow> Price \<Rightarrow> GUIService \<Rightarrow> GUIService" where
  "PublishThrottledPrice now stamp p s =
     (let diff = cdiv (now - cur_time s) 1000000
      in if diff > throttle s then GUIConnector_Publish stamp p (s\<lparr>cur_time := now\<rparr>) else s)"

text \<open>\<open>GUIService::OnMessage\<close> has an empty body.\<close>

definition GUIService_OnMessage :: "Price \<Rightarrow> GUIService \<Rightarrow> GUIService" where
  "GUIService_OnMessage p s = s"

text \<open>
  \<open>GUIServiceListener::ProcessAdd\<close>, the callback the pricing service invokes for every
  price: it calls \<open>OnMessage\<close>. Nothing in the sources calls \<open>PublishThrottledPrice\<close>.
\<close>

definition GUIServiceListener_ProcessAdd :: "Price \<Rightarrow> GUIService \<Rightarrow> GUIService" where
  "GUIServiceListener_ProcessAdd p s = GUIService_OnMessage p s"

text \<open>
  A run of price events through the listener; each event comes with the clock readings
  that would be taken while it is processed.
\<close>

fun GUI_run :: "(int \<times> int \<times> Price) list \<Rightarrow> GUIService \<Rightarrow> GUIService" where
  "GUI_run [] s = s"
| "GUI_run ((now, stamp, p) # evs) s = GUI_run evs (GUIServiceListener_ProcessAdd p s)"

section \<open>tradebookingservice.hpp\<close>

record Trade =
  tr_product :: Bond
  tradeId :: string
  tr_price :: rat
  book :: string
  tr_quantity :: int
  tr_side :: Side

record 'l TradeBookingService =
  trades :: "string \<rightharpoonup> Trade"
  tb_listeners :: "'l list"

definition TradeBookingService_OnMessage ::
  "Trade \<Rightarrow> 'l TradeBookingService \<Rightarrow> 'l TradeBookingService \<times> ('l \<times> Trade) list" where
  "TradeBookingService_OnMessage data s =
     (let key = tradeId data;
          m = (if trades s key \<noteq> None then (trades s)(key \<mapsto> data)
               else (trades s)(key \<mapsto> data))
      in (s\<lparr>trades := m\<rparr>, notify (tb_listeners s) data))"

text \<open>
  The listener of the trade-booking service on the execution service: its counter
  (initialised to 0 by the constructor) and the service it points to.
\<close>

record 'l TradeBookingServiceListener =
  tbl_count :: int
  tbl_service :: "'l TradeBookingService"

definition TradeBookingServiceListener_init ::
  "'l TradeBookingService \<Rightarrow> 'l TradeBookingServiceListener" where
  "TradeBookingServiceListener_init sv = \<lparr>tbl_count = 0, tbl_service = sv\<rparr>"

text \<open>The trade that \<open>ProcessAdd\<close> constructs once the counter has been incremented.\<close>

definition book_of_count :: "int \<Rightarrow> string" where
  "book_of_count c =
     (if cmod c 3 = 0 then ''TRSY1''
      else if cmod c 3 = 1 then ''TRSY2''
      else if cmod c 3 = 2 then ''TRSY3''
      else [])"

definition TradeBookingServiceListener_ProcessAdd ::
  "ExecutionOrder \<Rightarrow> 'l TradeBookingServiceListener
     \<Rightarrow> 'l TradeBookingServiceListener \<times> ('l \<times> Trade) list" where
  "TradeBookingServiceListener_ProcessAdd data l =
     (let prod = eo_product data;
          oid = orderId data;
          pr = eo_price data;
          qty = visibleQuantity data + hiddenQuantity data;
          sd = (if eo_side data = BID then BUY else SELL);
          count' = tbl_count l + 1;
          bk = book_of_count count';
          trade = \<lparr>tr_product = prod, tradeId = oid, tr_price = pr, book = bk,
                   tr_quantity = qty, tr_side = sd\<rparr>;
          (sv, calls) = TradeBookingService_OnMessage trade (tbl_service l)
      in (\<lparr>tbl_count = count', tbl_service = sv\<rparr>, calls))"

text \<open>
  The executions of a run, one after the other: the states of the listener after each
  of them, and the trade passed to the service for each, read back from the store under
  its identifier right after the call.
\<close>

fun booked_trades ::
  "ExecutionOrder list \<Rightarrow> 'l TradeBookingServiceListener \<Rightarrow> Trade option list" where
  "booked_trades [] l = []"
| "booked_trades (e # es) l =
     (let (l', calls) = TradeBookingServiceListener_ProcessAdd e l
      in trades (tbl_service l') (orderId e) # booked_trades es l')"

section \<open>positionservice.hpp\<close>

text \<open>
  \<open>bookpositions\<close> is a \<open>std::map<string, long>\<close> that \<open>GetAggregatePosition\<close> iterates
  over: a list of pairs (book, quantity) with one pair per book, in the order in which the
  books were first added. The \<open>std::map\<close> yields them in the order of the keys instead;
  \<open>GetAggregatePosition\<close> adds the quantities up, which gives the same sum in either order.
\<close>

record Position =
  pos_product :: Bond
  bookpositions :: "(string \<times> int) list"


definition Position_AddPosition :: "string \<Rightarrow> int \<Rightarrow> Position \<Rightarrow> Position" where
  "Position_AddPosition bk q p =
     (case map_of (bookpositions p) bk of
        None \<Rightarrow> p\<lparr>bookpositions := bookpositions p @ [(bk, q)]\<rparr>
      | Some v \<Rightarrow> p\<lparr>bookpositions := AList.update bk (v + q) (bookpositions p)\<rparr>)"





section \<open>riskservice.hpp\<close>



record BucketedSector =
  products :: "Bond list"
  sector_name :: string




text \<open>
  \<open>RiskService::GetBucketedRisk\<close> is not embedded. It is a \<open>const\<close> member that binds the
  non-const reference \<open>vector<T>& products\<close> to the const vector returned by
  \<open>GetProducts\<close> and applies \<open>operator[]\<close> to the const map \<open>pv01s\<close>, so it cannot be
  instantiated; its result type is \<open>const PV01<BucketedSector<T>>&\<close> and the
  \<open>return\<close> statement binds that reference to a temporary, which is destroyed when the
  function returns; and its accumulator \<open>pv01BucketVal\<close> is a sum of products in binary64
  of factors that are not dyadic, so it is not the exact sum. Nothing in the sources calls
  it.
\<close>

section \<open>Quantities in which the properties are stated\<close>




section \<open>Verified properties\<close>

subsection \<open>Arithmetic of C++ on non-negative operands\<close>

lemma cmod_nonneg: "0 \<le> a \<Longrightarrow> 0 < b \<Longrightarrow> cmod a b = a mod b"
  by (cases "a = 0") (simp_all add: cmod_def)

lemma cdiv_nonneg: "0 \<le> a \<Longrightarrow> 0 < b \<Longrightarrow> cdiv a b = a div b"
  by (cases "a = 0") (simp_all add: cdiv_def)

subsection \<open>Trade booking: the cycle of books\<close>

lemma book_of_count_nonneg:
  "0 \<le> c \<Longrightarrow> book_of_count c =
     (if c mod 3 = 1 then ''TRSY2'' else if c mod 3 = 2 then ''TRSY3'' else ''TRSY1'')"
  unfolding book_of_count_def by (simp add: cmod_nonneg) presburger

lemma ProcessAdd_effect:
  "TradeBookingServiceListener_ProcessAdd e l =
     (\<lparr>tbl_count = tbl_count l + 1,
       tbl_service = (tbl_service l)\<lparr>trades := (trades (tbl_service l))(orderId e \<mapsto>
          \<lparr>tr_product = eo_product e, tradeId = orderId e, tr_price = eo_price e,
           book = book_of_count (tbl_count l + 1),
           tr_quantity = visibleQuantity e + hiddenQuantity e,
           tr_side = (if eo_side e = BID then BUY else SELL)\<rparr>)\<rparr>\<rparr>,
      notify (tb_listeners (tbl_service l))
          \<lparr>tr_product = eo_product e, tradeId = orderId e, tr_price = eo_price e,
           book = book_of_count (tbl_count l + 1),
           tr_quantity = visibleQuantity e + hiddenQuantity e,
           tr_side = (if eo_side e = BID then BUY else SELL)\<rparr>)"
  by (simp add: TradeBookingServiceListener_ProcessAdd_def TradeBookingService_OnMessage_def Let_def)

lemma booked_trades_nth:
  "i < length es \<Longrightarrow>
   booked_trades es l ! i =
     Some \<lparr>tr_product = eo_product (es ! i), tradeId = orderId (es ! i),
           tr_price = eo_price (es ! i),
           book = book_of_count (tbl_count l + 1 + int i),
           tr_quantity = visibleQuantity (es ! i) + hiddenQuantity (es ! i),
           tr_side = (if eo_side (es ! i) = BID then BUY else SELL)\<rparr>"
proof (induction es arbitrary: l i)
  case Nil
  then show ?case by simp
next
  case (Cons e es)
  show ?case
  proof (cases i)
    case 0
    then show ?thesis by (simp add: ProcessAdd_effect)
  next
    case (Suc j)
    with Cons.prems have "j < length es" by simp
    from Cons.IH[OF this] Suc show ?thesis
      by (simp add: ProcessAdd_effect algebra_simps)
  qed
qed

lemma length_booked_trades: "length (booked_trades es l) = length es"
  by (induction es arbitrary: l) (simp_all add: ProcessAdd_effect)

lemma booked_books:
  "map (map_option book) (booked_trades es l) =
     map (\<lambda>i. Some (book_of_count (tbl_count l + 1 + int i))) [0..<length es]"
  by (rule nth_equalityI) (simp_all add: length_booked_trades booked_trades_nth)

lemma upt_9: "[0..<9] = [0, 1, 2, 3, 4, 5, 6, 7, 8]"
  by (simp add: upt_rec)

text \<open>
  C6. From the counter 0 of a fresh listener, the \<open>k\<close>-th execution order of a run
  (counting from 1) is passed to the trade-booking service as a trade under its order
  identifier, booked to TRSY2 when \<open>k mod 3 = 1\<close>, to TRSY3 when \<open>k mod 3 = 2\<close> and to
  TRSY1 when \<open>k mod 3 = 0\<close>; a run of nine executions is booked to TRSY2, TRSY3, TRSY1
  three times over.
\<close>

theorem trade_booking_book_cycle:
  assumes "1 \<le> k" and "k \<le> length es"
  shows "(\<exists>t. booked_trades es (TradeBookingServiceListener_init sv) ! (k - 1) = Some t
            \<and> tradeId t = orderId (es ! (k - 1))
            \<and> book t = (if k mod 3 = 1 then ''TRSY2''
                        else if k mod 3 = 2 then ''TRSY3'' else ''TRSY1''))
       \<and> (length es = 9 \<longrightarrow>
            map (map_option book) (booked_trades es (TradeBookingServiceListener_init sv)) =
              [Some ''TRSY2'', Some ''TRSY3'', Some ''TRSY1'', Some ''TRSY2'', Some ''TRSY3'',
               Some ''TRSY1'', Some ''TRSY2'', Some ''TRSY3'', Some ''TRSY1''])"
proof -
  from assms have i: "k - 1 < length es" by simp
  have c: "tbl_count (TradeBookingServiceListener_init sv) + 1 + int (k - 1) = int k"
    using assms by (simp add: TradeBookingServiceListener_init_def)
  have m: "int k mod 3 = 1 \<longleftrightarrow> k mod 3 = 1" "int k mod 3 = 2 \<longleftrightarrow> k mod 3 = 2"
    by presburger+
  have first: "\<exists>t. booked_trades es (TradeBookingServiceListener_init sv) ! (k - 1) = Some t
            \<and> tradeId t = orderId (es ! (k - 1))
            \<and> book t = (if k mod 3 = 1 then ''TRSY2''
                        else if k mod 3 = 2 then ''TRSY3'' else ''TRSY1'')"
    unfolding booked_trades_nth[OF i] c
    by (simp add: book_of_count_nonneg m)
  have nine: "map (map_option book) (booked_trades es (TradeBookingServiceListener_init sv)) =
              [Some ''TRSY2'', Some ''TRSY3'', Some ''TRSY1'', Some ''TRSY2'', Some ''TRSY3'',
               Some ''TRSY1'', Some ''TRSY2'', Some ''TRSY3'', Some ''TRSY1'']"
    if "length es = 9"
    unfolding booked_books that upt_9
    by (simp add: TradeBookingServiceListener_init_def book_of_count_nonneg)
  from first nine show ?thesis by blast
qed

theorem trade_booking_book_cycle_witness:
  "(1::nat) \<le> 4 \<and> 4 \<le> length (replicate 9 \<lparr>eo_product = mkBond ''9128283H1'' CUSIP ''US2Y'' (7 / 400) ''2025/12/30'',
        eo_side = BID, orderId = ''A1'', orderType = MARKET, eo_price = 99,
        visibleQuantity = 1000000, hiddenQuantity = 0, parentOrderId = ''AP1'',
        isChildOrder = False\<rparr>)
   \<and> (\<exists>t. booked_trades (replicate 9 \<lparr>eo_product = mkBond ''9128283H1'' CUSIP ''US2Y'' (7 / 400) ''2025/12/30'',
        eo_side = BID, orderId = ''A1'', orderType = MARKET, eo_price = 99,
        visibleQuantity = 1000000, hiddenQuantity = 0, parentOrderId = ''AP1'',
        isChildOrder = False\<rparr>)
          (TradeBookingServiceListener_init \<lparr>trades = Map.empty, tb_listeners = [0::nat]\<rparr>) ! 3 = Some t
        \<and> book t = ''TRSY2'')"
  using trade_booking_book_cycle [of 4 "replicate 9 \<lparr>eo_product = mkBond ''9128283H1'' CUSIP ''US2Y'' (7 / 400) ''2025/12/30'',
        eo_side = BID, orderId = ''A1'', orderType = MARKET, eo_price = 99,
        visibleQuantity = 1000000, hiddenQuantity = 0, parentOrderId = ''AP1'',
        isChildOrder = False\<rparr>" "\<lparr>trades = Map.empty, tb_listeners = [0::nat]\<rparr>"]
  by auto

subsection \<open>Risk service: the stored record under further positions\<close>







subsection \<open>Position service: conservation of the aggregate\<close>






lemma product_AddPosition: "pos_product (Position_AddPosition bk q p) = pos_product p"
  by (simp add: Position_AddPosition_def split: option.split)









subsection \<open>Algo execution: a book with a wide spread\<close>

lemma AlgoExecuteOrder_wide:
  assumes "GetBestBidOffer ob = Inr bo"
    and "1 / 128 < ord_price (offerOrder bo) - ord_price (bidOrder bo)"
  shows "AlgoExecuteOrder rnd11 rnd10 (sd, pr, qty) ob s =
           Inr (s\<lparr>algoExecutions := (algoExecutions s)(GetProductId (ob_product ob) \<mapsto>
                     \<lparr>executionOrder = \<lparr>eo_product = ob_product ob, eo_side = sd,
                          orderId = ''A'' @ rnd11, orderType = MARKET, eo_price = pr,
                          visibleQuantity = qty, hiddenQuantity = 0,
                          parentOrderId = ''AP'' @ rnd10, isChildOrder = False\<rparr>,
                       market = BROKERTEC\<rparr>),
                  ae_count := ae_count s + 1\<rparr>,
                notify (ae_listeners s)
                     \<lparr>executionOrder = \<lparr>eo_product = ob_product ob, eo_side = sd,
                          orderId = ''A'' @ rnd11, orderType = MARKET, eo_price = pr,
                          visibleQuantity = qty, hiddenQuantity = 0,
                          parentOrderId = ''AP'' @ rnd10, isChildOrder = False\<rparr>,
                       market = BROKERTEC\<rparr>)"
  using assms
  by (simp add: AlgoExecuteOrder_def bind_result_def Let_def)

text \<open>
  C2, evaluated on the code. The book of 9128283H1 with the single bid 99 for 1000000 and
  the single offer 100 for 2000000 has a spread of 1, above 1/128. A fresh service with
  one listener increments its counter to 1, and it also stores an execution for the
  product and passes it to the listener; the side, price and quantity of that order are
  whatever the unassigned locals hold (here OFFER, 0 and 0).
\<close>

theorem algo_execution_wide_spread_emits:
  "AlgoExecuteOrder ''12345678901'' ''1234567890'' (OFFER, 0, 0)
     \<lparr>ob_product = mkBond ''9128283H1'' CUSIP ''US2Y'' (7 / 400) ''2025/12/30'',
       bidStack = [\<lparr>ord_price = 99, ord_quantity = 1000000, ord_side = BID\<rparr>],
       offerStack = [\<lparr>ord_price = 100, ord_quantity = 2000000, ord_side = OFFER\<rparr>]\<rparr>
     \<lparr>algoExecutions = Map.empty, ae_listeners = [0::nat], ae_count = 0\<rparr>
   = Inr (\<lparr>algoExecutions = [''9128283H1'' \<mapsto>
               \<lparr>executionOrder = \<lparr>eo_product = mkBond ''9128283H1'' CUSIP ''US2Y'' (7 / 400) ''2025/12/30'',
                    eo_side = OFFER, orderId = ''A12345678901'', orderType = MARKET, eo_price = 0,
                    visibleQuantity = 0, hiddenQuantity = 0, parentOrderId = ''AP1234567890'',
                    isChildOrder = False\<rparr>,
                 market = BROKERTEC\<rparr>],
            ae_listeners = [0], ae_count = 1\<rparr>,
          [(0, \<lparr>executionOrder = \<lparr>eo_product = mkBond ''9128283H1'' CUSIP ''US2Y'' (7 / 400) ''2025/12/30'',
                    eo_side = OFFER, orderId = ''A12345678901'', orderType = MARKET, eo_price = 0,
                    visibleQuantity = 0, hiddenQuantity = 0, parentOrderId = ''AP1234567890'',
                    isChildOrder = False\<rparr>,
                 market = BROKERTEC\<rparr>)])"
  by (simp add: AlgoExecuteOrder_def GetBestBidOffer_def bind_result_def Let_def notify_def
      GetProductId_def mkBond_def)

subsection \<open>GUI service: the throttle is never reached\<close>

lemma GUI_run_unchanged: "GUI_run evs s = s"
  by (induction evs s rule: GUI_run.induct)
     (simp_all add: GUIServiceListener_ProcessAdd_def GUIService_OnMessage_def)

text \<open>
  C4, evaluated on the code. A service constructed at clock reading 0 receives one price
  through its listener 400 ms later: nothing is written to the file and the reference
  time stays 0, whereas \<open>PublishThrottledPrice\<close> on the same event writes the price and
  moves the reference time.
\<close>

theorem gui_listener_never_emits:
  "gui_file (GUI_run [(400000000, 400000000,
        \<lparr>pr_product = mkBond ''9128283H1'' CUSIP ''US2Y'' (7 / 400) ''2025/12/30'',
          mid = 99, bidOfferSpread = 1 / 128\<rparr>)] (GUIService_init 0)) = []
   \<and> cur_time (GUI_run [(400000000, 400000000,
        \<lparr>pr_product = mkBond ''9128283H1'' CUSIP ''US2Y'' (7 / 400) ''2025/12/30'',
          mid = 99, bidOfferSpread = 1 / 128\<rparr>)] (GUIService_init 0)) = 0
   \<and> gui_file (PublishThrottledPrice 400000000 400000000
        \<lparr>pr_product = mkBond ''9128283H1'' CUSIP ''US2Y'' (7 / 400) ''2025/12/30'',
          mid = 99, bidOfferSpread = 1 / 128\<rparr> (GUIService_init 0))
       = [(400000000, \<lparr>pr_product = mkBond ''9128283H1'' CUSIP ''US2Y'' (7 / 400) ''2025/12/30'',
          mid = 99, bidOfferSpread = 1 / 128\<rparr>)]
   \<and> cur_time (PublishThrottledPrice 400000000 400000000
        \<lparr>pr_product = mkBond ''9128283H1'' CUSIP ''US2Y'' (7 / 400) ''2025/12/30'',
          mid = 99, bidOfferSpread = 1 / 128\<rparr> (GUIService_init 0)) = 400000000"
  by (simp add: GUIServiceListener_ProcessAdd_def GUIService_OnMessage_def GUIService_init_def
      PublishThrottledPrice_def GUIConnector_Publish_def cdiv_def)

subsection \<open>Inquiry service: the chain of calls for a received inquiry\<close>

lemma OnMessage_DONE:
  assumes "state d = DONE"
  shows "InquiryService_OnMessage d s =
           (d, s\<lparr>inquirys := (inquirys s)(inquiryId d := None)\<rparr>, notify (inq_listeners s) d)"
  using assms by (subst InquiryService_OnMessage.simps) (simp add: Let_def)

lemma OnMessage_QUOTED:
  assumes "state d = QUOTED"
  shows "InquiryService_OnMessage d s =
           (d\<lparr>state := DONE\<rparr>, s\<lparr>inquirys := (inquirys s)(inquiryId d := None)\<rparr>,
            notify (inq_listeners s) (d\<lparr>state := DONE\<rparr>))"
  using assms by (subst InquiryService_OnMessage.simps) (simp add: Let_def)


lemma Publish_RECEIVED:
  assumes "state d = RECEIVED"
  shows "InquiryConnector_Publish d s =
           (d\<lparr>state := DONE\<rparr>, s\<lparr>inquirys := (inquirys s)(inquiryId d := None)\<rparr>,
            notify (inq_listeners s) (d\<lparr>state := DONE\<rparr>)
            @ notify (inq_listeners s) (d\<lparr>state := DONE\<rparr>))"
  using assms
  by (subst InquiryConnector_Publish.simps) (simp add: Let_def OnMessage_QUOTED OnMessage_DONE)

lemma OnMessage_RECEIVED:
  assumes "state d = RECEIVED"
  shows "InquiryService_OnMessage d s =
           (d\<lparr>state := DONE\<rparr>, s\<lparr>inquirys := (inquirys s)(inquiryId d := None)\<rparr>,
            notify (inq_listeners s) (d\<lparr>state := DONE\<rparr>)
            @ notify (inq_listeners s) (d\<lparr>state := DONE\<rparr>)
            @ notify (inq_listeners s) (d\<lparr>state := DONE\<rparr>))"
  using assms
  by (subst InquiryService_OnMessage.simps) (simp add: Let_def Publish_RECEIVED)

text \<open>
  C1 as stated fails: for the inquiry I1 received with an empty store and one listener,
  the three calls of \<open>ProcessAdd\<close> carry the states DONE, DONE, DONE, not RECEIVED,
  QUOTED, DONE. The inquiry is passed by reference and each call of \<open>OnMessage\<close> notifies
  the listeners only after the state has been moved on.
\<close>

theorem inquiry_chain_states_counterexample:
  "map (state \<circ> snd) (snd (snd (InquiryService_OnMessage
       \<lparr>inquiryId = ''I1'', inq_product = mkBond ''9128283H1'' CUSIP ''US2Y'' (7 / 400) ''2025/12/30'',
         inq_side = BUY, inq_quantity = 1000000, inq_price = 99, state = RECEIVED\<rparr>
       \<lparr>inquirys = Map.empty, inq_listeners = [0::nat]\<rparr>)))
     = [DONE, DONE, DONE]
   \<and> map (state \<circ> snd) (snd (snd (InquiryService_OnMessage
       \<lparr>inquiryId = ''I1'', inq_product = mkBond ''9128283H1'' CUSIP ''US2Y'' (7 / 400) ''2025/12/30'',
         inq_side = BUY, inq_quantity = 1000000, inq_price = 99, state = RECEIVED\<rparr>
       \<lparr>inquirys = Map.empty, inq_listeners = [0::nat]\<rparr>)))
     \<noteq> [RECEIVED, QUOTED, DONE]"
  by (simp add: OnMessage_RECEIVED notify_def)

text \<open>
  C1 as amended. For an inquiry that arrives in state RECEIVED, \<open>OnMessage\<close> makes three
  rounds of \<open>ProcessAdd\<close> calls over the listeners, in registration order within each
  round, so every registered listener is called exactly three times; every call carries
  the inquiry in state DONE; and afterwards the store has no entry under the identifier
  of the inquiry.
\<close>

theorem inquiry_received_chain:
  assumes "state d = RECEIVED"
  shows "snd (snd (InquiryService_OnMessage d s)) =
           notify (inq_listeners s) (d\<lparr>state := DONE\<rparr>)
           @ notify (inq_listeners s) (d\<lparr>state := DONE\<rparr>)
           @ notify (inq_listeners s) (d\<lparr>state := DONE\<rparr>)
       \<and> map fst (snd (snd (InquiryService_OnMessage d s))) =
           inq_listeners s @ inq_listeners s @ inq_listeners s
       \<and> map (state \<circ> snd) (snd (snd (InquiryService_OnMessage d s))) =
           replicate (3 * length (inq_listeners s)) DONE
       \<and> inquirys (fst (snd (InquiryService_OnMessage d s))) (inquiryId d) = None"
proof -
  have "map (state \<circ> snd) (notify ls (d\<lparr>state := DONE\<rparr>)) = replicate (length ls) DONE" for ls :: "'a list"
    by (induction ls) (simp_all add: notify_def)
  moreover have "map fst (notify ls (d\<lparr>state := DONE\<rparr>)) = ls" for ls :: "'a list"
    by (induction ls) (simp_all add: notify_def)
  ultimately show ?thesis
    by (simp add: OnMessage_RECEIVED[OF assms] replicate_add[symmetric])
qed

theorem inquiry_received_chain_witness:
  "state \<lparr>inquiryId = ''I1'', inq_product = mkBond ''9128283H1'' CUSIP ''US2Y'' (7 / 400) ''2025/12/30'',
         inq_side = BUY, inq_quantity = 1000000, inq_price = 99, state = RECEIVED\<rparr> = RECEIVED
   \<and> map (state \<circ> snd) (snd (snd (InquiryService_OnMessage
       \<lparr>inquiryId = ''I1'', inq_product = mkBond ''9128283H1'' CUSIP ''US2Y'' (7 / 400) ''2025/12/30'',
         inq_side = BUY, inq_quantity = 1000000, inq_price = 99, state = RECEIVED\<rparr>
       \<lparr>inquirys = [''I1'' \<mapsto> \<lparr>inquiryId = ''I1'', inq_product = mkBond ''9128283H1'' CUSIP ''US2Y'' (7 / 400) ''2025/12/30'',
         inq_side = BUY, inq_quantity = 1000000, inq_price = 99, state = REJECTED\<rparr>],
         inq_listeners = [0::nat, 1]\<rparr>)))
     = [DONE, DONE, DONE, DONE, DONE, DONE]
   \<and> inquirys (fst (snd (InquiryService_OnMessage
       \<lparr>inquiryId = ''I1'', inq_product = mkBond ''9128283H1'' CUSIP ''US2Y'' (7 / 400) ''2025/12/30'',
         inq_side = BUY, inq_quantity = 1000000, inq_price = 99, state = RECEIVED\<rparr>
       \<lparr>inquirys = [''I1'' \<mapsto> \<lparr>inquiryId = ''I1'', inq_product = mkBond ''9128283H1'' CUSIP ''US2Y'' (7 / 400) ''2025/12/30'',
         inq_side = BUY, inq_quantity = 1000000, inq_price = 99, state = REJECTED\<rparr>],
         inq_listeners = [0::nat, 1]\<rparr>))) ''I1'' = None"
proof -
  let ?d = "\<lparr>inquiryId = ''I1'', inq_product = mkBond ''9128283H1'' CUSIP ''US2Y'' (7 / 400) ''2025/12/30'',
         inq_side = BUY, inq_quantity = 1000000, inq_price = 99, state = RECEIVED\<rparr>"
  let ?s = "\<lparr>inquirys = [''I1'' \<mapsto> \<lparr>inquiryId = ''I1'', inq_product = mkBond ''9128283H1'' CUSIP ''US2Y'' (7 / 400) ''2025/12/30'',
         inq_side = BUY, inq_quantity = 1000000, inq_price = 99, state = REJECTED\<rparr>],
         inq_listeners = [0::nat, 1]\<rparr>"
  have h: "state ?d = RECEIVED" by simp
  have n: "replicate (3 * length (inq_listeners ?s)) DONE = [DONE, DONE, DONE, DONE, DONE, DONE]"
    by (simp add: numeral_eq_Suc)
  from inquiry_received_chain [OF h, of ?s]
  have "map (state \<circ> snd) (snd (snd (InquiryService_OnMessage ?d ?s))) =
          replicate (3 * length (inq_listeners ?s)) DONE"
    and e: "inquirys (fst (snd (InquiryService_OnMessage ?d ?s))) (inquiryId ?d) = None"
    by blast+
  then have c: "map (state \<circ> snd) (snd (snd (InquiryService_OnMessage ?d ?s))) =
          [DONE, DONE, DONE, DONE, DONE, DONE]"
    unfolding n by simp
  have i: "inquiryId ?d = ''I1''" by simp
  from h c e[unfolded i] show ?thesis by blast
qed

subsection \<open>Inquiry decoder: an unknown state token\<close>






subsection \<open>Market data: aggregation of the depth\<close>

lemma agg_add_update:
  "agg_add m ord =
     AList.update (ord_price ord)
       ((case map_of m (ord_price ord) of None \<Rightarrow> 0 | Some v \<Rightarrow> v) + ord_quantity ord) m"
proof (cases "map_of m (ord_price ord)")
  case None
  then have "ord_price ord \<notin> fst ` set m" by (simp add: map_of_eq_None_iff)
  then have "AList.update (ord_price ord) w m = m @ [(ord_price ord, w)]" for w
    by (induction m) auto
  with None show ?thesis by (simp add: agg_add_def)
next
  case (Some v)
  then show ?thesis by (simp add: agg_add_def)
qed

lemma agg_add_distinct:
  "distinct (map fst m) \<Longrightarrow> distinct (map fst (agg_add m ord))"
  by (simp add: agg_add_update distinct_update)

lemma agg_loop_distinct:
  "distinct (map fst m) \<Longrightarrow> distinct (map fst (foldl agg_add m stack))"
  by (induction stack arbitrary: m) (simp_all add: agg_add_distinct)

lemma agg_add_fresh:
  "ord_price ord \<notin> fst ` set m \<Longrightarrow> agg_add m ord = m @ [(ord_price ord, ord_quantity ord)]"
  by (simp add: agg_add_def map_of_eq_None_iff[THEN iffD2])

lemma agg_loop_fresh:
  assumes "distinct (map fst m @ map ord_price stack)"
  shows "foldl agg_add m stack = m @ map (\<lambda>ord. (ord_price ord, ord_quantity ord)) stack"
  using assms
proof (induction stack arbitrary: m)
  case Nil
  then show ?case by simp
next
  case (Cons ord stack)
  from Cons.prems have fresh: "ord_price ord \<notin> fst ` set m" by auto
  from Cons.prems have "distinct (map fst (m @ [(ord_price ord, ord_quantity ord)]) @ map ord_price stack)"
    by auto
  from Cons.IH[OF this] show ?case by (simp add: agg_add_fresh[OF fresh])
qed

lemma aggregate_stack_distinct:
  assumes "\<forall>xs. mset (iter xs) = mset xs"
  shows "distinct (map ord_price (aggregate_stack iter sd stack))"
proof -
  let ?L = "foldl agg_add [] stack"
  have d: "distinct (map fst ?L)" by (simp add: agg_loop_distinct)
  from assms have "mset (map fst (iter ?L)) = mset (map fst ?L)" by simp
  with d have "distinct (map fst (iter ?L))" by (metis mset_eq_imp_distinct_iff)
  then show ?thesis by (simp add: aggregate_stack_def comp_def)
qed

lemma aggregate_stack_again:
  assumes p1: "\<forall>xs. mset (iter1 xs) = mset xs"
    and p2: "\<forall>xs. mset (iter2 xs) = mset xs"
  shows "mset (aggregate_stack iter2 sd (aggregate_stack iter1 sd stack)) =
         mset (aggregate_stack iter1 sd stack)"
proof -
  let ?A = "aggregate_stack iter1 sd stack"
  let ?mk = "\<lambda>item. \<lparr>ord_price = fst item, ord_quantity = snd item, ord_side = sd\<rparr>"
  have A: "?A = map ?mk (iter1 (foldl agg_add [] stack))"
    by (simp add: aggregate_stack_def)
  have "distinct (map fst ([]::(rat \<times> int) list) @ map ord_price ?A)"
    using aggregate_stack_distinct[OF p1, of sd stack] by simp
  from agg_loop_fresh[OF this]
  have "foldl agg_add [] ?A = map (\<lambda>ord. (ord_price ord, ord_quantity ord)) ?A" by simp
  also have "\<dots> = iter1 (foldl agg_add [] stack)"
    unfolding A by (simp add: comp_def)
  finally have "aggregate_stack iter2 sd ?A = map ?mk (iter2 (iter1 (foldl agg_add [] stack)))"
    by (simp add: aggregate_stack_def)
  then have "mset (aggregate_stack iter2 sd ?A) = image_mset ?mk (mset (iter1 (foldl agg_add [] stack)))"
    using p2 by simp
  then show ?thesis unfolding A by simp
qed

text \<open>
  C7. Whatever the orders in which the two hash maps yield their entries, aggregating
  the book of a product and then aggregating it again gives a book with the same product
  and, on each side, the same orders (price, quantity, side) with the same multiplicity;
  the prices of each side of an aggregated book are pairwise different, so this is the
  same set of (price, side) pairs with the same quantity at each.
\<close>

theorem aggregate_depth_idempotent:
  assumes "\<forall>xs. mset (iter1 xs) = mset xs" and "\<forall>xs. mset (iter2 xs) = mset xs"
  shows "ob_product (fst (AggregateDepth iter2 dflt pid (snd (AggregateDepth iter1 dflt pid s)))) =
           ob_product (fst (AggregateDepth iter1 dflt pid s))
       \<and> mset (bidStack (fst (AggregateDepth iter2 dflt pid (snd (AggregateDepth iter1 dflt pid s))))) =
           mset (bidStack (fst (AggregateDepth iter1 dflt pid s)))
       \<and> mset (offerStack (fst (AggregateDepth iter2 dflt pid (snd (AggregateDepth iter1 dflt pid s))))) =
           mset (offerStack (fst (AggregateDepth iter1 dflt pid s)))
       \<and> set (bidStack (fst (AggregateDepth iter2 dflt pid (snd (AggregateDepth iter1 dflt pid s))))) =
           set (bidStack (fst (AggregateDepth iter1 dflt pid s)))
       \<and> set (offerStack (fst (AggregateDepth iter2 dflt pid (snd (AggregateDepth iter1 dflt pid s))))) =
           set (offerStack (fst (AggregateDepth iter1 dflt pid s)))
       \<and> distinct (map ord_price (bidStack (fst (AggregateDepth iter1 dflt pid s))))
       \<and> distinct (map ord_price (offerStack (fst (AggregateDepth iter1 dflt pid s))))"
proof -
  let ?b = "case orderBooks s pid of
              None \<Rightarrow> \<lparr>ob_product = dflt, bidStack = [], offerStack = []\<rparr> | Some b \<Rightarrow> b"
  have one: "fst (AggregateDepth iter1 dflt pid s) =
               \<lparr>ob_product = ob_product ?b,
                bidStack = aggregate_stack iter1 BID (bidStack ?b),
                offerStack = aggregate_stack iter1 OFFER (offerStack ?b)\<rparr>"
    by (simp add: AggregateDepth_def Let_def)
  have two: "fst (AggregateDepth iter2 dflt pid (snd (AggregateDepth iter1 dflt pid s))) =
               \<lparr>ob_product = ob_product ?b,
                bidStack = aggregate_stack iter2 BID (aggregate_stack iter1 BID (bidStack ?b)),
                offerStack = aggregate_stack iter2 OFFER (aggregate_stack iter1 OFFER (offerStack ?b))\<rparr>"
    by (simp add: AggregateDepth_def Let_def)
  have sets: "set (aggregate_stack iter2 sd (aggregate_stack iter1 sd st)) =
              set (aggregate_stack iter1 sd st)" for sd st
    using aggregate_stack_again[OF assms, of sd st] by (rule mset_eq_setD)
  show ?thesis
    unfolding one two
    by (simp add: aggregate_stack_again[OF assms] sets aggregate_stack_distinct[OF assms(1)])
qed

theorem aggregate_depth_idempotent_witness:
  "(\<forall>xs::(rat \<times> int) list. mset (rev xs) = mset xs)
   \<and> (\<forall>xs::(rat \<times> int) list. mset (id xs) = mset xs)
   \<and> bidStack (fst (AggregateDepth rev (mkBond [] CUSIP [] 0 []) ''9128283H1''
        \<lparr>orderBooks = [''9128283H1'' \<mapsto>
            \<lparr>ob_product = mkBond ''9128283H1'' CUSIP ''US2Y'' (7 / 400) ''2025/12/30'',
              bidStack = [\<lparr>ord_price = 99, ord_quantity = 1000000, ord_side = BID\<rparr>,
                          \<lparr>ord_price = 98, ord_quantity = 2000000, ord_side = BID\<rparr>,
                          \<lparr>ord_price = 99, ord_quantity = 3000000, ord_side = BID\<rparr>],
              offerStack = [\<lparr>ord_price = 100, ord_quantity = 1000000, ord_side = OFFER\<rparr>]\<rparr>],
          bookDepth = 5\<rparr>))
     = [\<lparr>ord_price = 98, ord_quantity = 2000000, ord_side = BID\<rparr>,
        \<lparr>ord_price = 99, ord_quantity = 4000000, ord_side = BID\<rparr>]
   \<and> set (bidStack (fst (AggregateDepth id (mkBond [] CUSIP [] 0 []) ''9128283H1''
        (snd (AggregateDepth rev (mkBond [] CUSIP [] 0 []) ''9128283H1''
        \<lparr>orderBooks = [''9128283H1'' \<mapsto>
            \<lparr>ob_product = mkBond ''9128283H1'' CUSIP ''US2Y'' (7 / 400) ''2025/12/30'',
              bidStack = [\<lparr>ord_price = 99, ord_quantity = 1000000, ord_side = BID\<rparr>,
                          \<lparr>ord_price = 98, ord_quantity = 2000000, ord_side = BID\<rparr>,
                          \<lparr>ord_price = 99, ord_quantity = 3000000, ord_side = BID\<rparr>],
              offerStack = [\<lparr>ord_price = 100, ord_quantity = 1000000, ord_side = OFFER\<rparr>]\<rparr>],
          bookDepth = 5\<rparr>)))))
     = {\<lparr>ord_price = 98, ord_quantity = 2000000, ord_side = BID\<rparr>,
        \<lparr>ord_price = 99, ord_quantity = 4000000, ord_side = BID\<rparr>}"
proof -
  let ?s = "\<lparr>orderBooks = [''9128283H1'' \<mapsto>
            \<lparr>ob_product = mkBond ''9128283H1'' CUSIP ''US2Y'' (7 / 400) ''2025/12/30'',
              bidStack = [\<lparr>ord_price = 99, ord_quantity = 1000000, ord_side = BID\<rparr>,
                          \<lparr>ord_price = 98, ord_quantity = 2000000, ord_side = BID\<rparr>,
                          \<lparr>ord_price = 99, ord_quantity = 3000000, ord_side = BID\<rparr>],
              offerStack = [\<lparr>ord_price = 100, ord_quantity = 1000000, ord_side = OFFER\<rparr>]\<rparr>],
          bookDepth = 5\<rparr>"
  let ?d = "mkBond [] CUSIP [] 0 []"
  have h1: "\<forall>xs::(rat \<times> int) list. mset (rev xs) = mset xs" by simp
  have h2: "\<forall>xs::(rat \<times> int) list. mset (id xs) = mset xs" by simp
  have first: "bidStack (fst (AggregateDepth rev ?d ''9128283H1'' ?s))
     = [\<lparr>ord_price = 98, ord_quantity = 2000000, ord_side = BID\<rparr>,
        \<lparr>ord_price = 99, ord_quantity = 4000000, ord_side = BID\<rparr>]"
    by (simp add: AggregateDepth_def aggregate_stack_def agg_add_def Let_def)
  from aggregate_depth_idempotent [OF h1 h2, of ?d "''9128283H1''" ?s]
  have "set (bidStack (fst (AggregateDepth id ?d ''9128283H1''
               (snd (AggregateDepth rev ?d ''9128283H1'' ?s))))) =
        set (bidStack (fst (AggregateDepth rev ?d ''9128283H1'' ?s)))"
    by blast
  then have second: "set (bidStack (fst (AggregateDepth id ?d ''9128283H1''
               (snd (AggregateDepth rev ?d ''9128283H1'' ?s)))))
     = {\<lparr>ord_price = 98, ord_quantity = 2000000, ord_side = BID\<rparr>,
        \<lparr>ord_price = 99, ord_quantity = 4000000, ord_side = BID\<rparr>}"
    unfolding first by simp
  from h1 h2 first second show ?thesis by blast
qed

subsection \<open>Price notation: digits and decimal strings\<close>

lemma digit_cases:
  "d < 10 \<Longrightarrow> d = 0 \<or> d = 1 \<or> d = 2 \<or> d = 3 \<or> d = 4 \<or> d = 5 \<or> d = 6 \<or> d = 7
     \<or> d = 8 \<or> d = (9::nat)"
  by presburger

lemma digit_char_props:
  assumes "d < 10"
  shows "isdigit (digit_char d)" and "digit_val (digit_char d) = d"
    and "\<not> isspace (digit_char d)" and "digit_char d \<noteq> CHR ''-''"
    and "digit_char d \<noteq> CHR ''+''"
  using digit_cases[OF assms]
  by (elim disjE; simp add: digit_char_def isdigit_def digit_val_def isspace_def)+

lemma to_string_nat_digits: "c \<in> set (to_string_nat n) \<Longrightarrow> isdigit c \<and> c \<noteq> CHR ''-''"
proof (induction n arbitrary: c rule: to_string_nat.induct)
  case (1 n)
  show ?case
  proof (cases "n < 10")
    case True
    with "1.prems" show ?thesis
      by (subst (asm) to_string_nat.simps) (simp add: digit_char_props)
  next
    case False
    from "1.prems" False have "c \<in> set (to_string_nat (n div 10)) \<or> c = digit_char (n mod 10)"
      by (subst (asm) to_string_nat.simps) auto
    with "1.IH"[OF False] show ?thesis by (auto simp: digit_char_props)
  qed
qed

lemma to_string_nat_nonempty: "to_string_nat n \<noteq> []"
  by (subst to_string_nat.simps) simp

lemma digits_val_snoc: "digits_val (ds @ [c]) = 10 * digits_val ds + digit_val c"
  by (simp add: digits_val_def)

lemma digits_val_to_string_nat: "digits_val (to_string_nat n) = n"
proof (induction n rule: to_string_nat.induct)
  case (1 n)
  show ?case
  proof (cases "n < 10")
    case True
    then show ?thesis
      by (subst to_string_nat.simps) (simp add: digits_val_def digit_char_props)
  next
    case False
    with "1.IH" show ?thesis
      by (subst to_string_nat.simps) (simp add: digits_val_snoc digit_char_props)
  qed
qed

lemma length_to_string_nat_1: "n < 10 \<Longrightarrow> length (to_string_nat n) = 1"
  by (subst to_string_nat.simps) simp

lemma length_to_string_nat_2: "10 \<le> n \<Longrightarrow> n < 100 \<Longrightarrow> length (to_string_nat n) = 2"
  by (subst to_string_nat.simps) (simp add: length_to_string_nat_1)

lemma digits_val_leading_zero: "digits_val (CHR ''0'' # ds) = digits_val ds"
  by (simp add: digits_val_def digit_val_def)

text \<open>\<open>stod\<close> on a non-empty string of digits is its decimal value.\<close>

lemma stod_digits:
  assumes "ds \<noteq> []" and "\<forall>c \<in> set ds. isdigit c"
  shows "stod ds = Inr (of_nat (digits_val ds))"
proof -
  from assms obtain c cs where ds: "ds = c # cs" by (cases ds) auto
  with assms have c: "isdigit c" by simp
  then have ns: "\<not> isspace c" "c \<noteq> CHR ''-''" "c \<noteq> CHR ''+''"
    by (auto simp: isdigit_def isspace_def)
  have dw: "dropWhile isspace ds = ds" using ns ds by simp
  have rs: "read_sign ds = (False, ds)" using ns ds by (simp add: read_sign_def)
  have tw: "takeWhile isdigit ds = ds" using assms by (simp add: takeWhile_eq_all_conv)
  have dd: "dropWhile isdigit ds = []" using assms by simp
  show ?thesis
    unfolding stod_def dw rs using assms(1) by (simp add: tw dd digits_val_def)
qed

lemma stod_to_string_nat: "stod (to_string_nat n) = Inr (of_nat n)"
  using stod_digits[of "to_string_nat n"] to_string_nat_digits[of _ n]
  by (simp add: to_string_nat_nonempty digits_val_to_string_nat)

lemma stod_padded: "stod (CHR ''0'' # to_string_nat n) = Inr (of_nat n)"
proof -
  have "isdigit CHR ''0''" by (simp add: isdigit_def)
  then have "\<forall>c \<in> set (CHR ''0'' # to_string_nat n). isdigit c"
    using to_string_nat_digits[of _ n] by auto
  from stod_digits[OF _ this] show ?thesis
    by (simp add: digits_val_leading_zero digits_val_to_string_nat)
qed

lemma find_char_after: "c \<notin> set ds \<Longrightarrow> find_char c (ds @ c # rest) = Some (length ds)"
  by (induction ds) auto

subsection \<open>Price notation: the encoder on the grid\<close>

lemma cround_of_int: "0 \<le> t \<Longrightarrow> \<lfloor>cround (of_int t)\<rfloor> = t"
proof -
  assume "0 \<le> t"
  have "\<lfloor>(of_int t :: rat) + 1 / 2\<rfloor> = t" by linarith
  with \<open>0 \<le> t\<close> show ?thesis by (simp add: cround_def)
qed

lemma grid_floor: "\<lfloor>(of_int k :: rat) / 256\<rfloor> = k div 256"
  using floor_divide_of_int_eq[of k 256, where ?'a = rat] by simp

lemma grid_fraction: "((of_int k :: rat) / 256 - of_int (k div 256)) * 256 = of_int (k mod 256)"
proof -
  have "k = 256 * (k div 256) + k mod 256" by simp
  then have "(of_int k :: rat) = 256 * of_int (k div 256) + of_int (k mod 256)"
    by (metis of_int_add of_int_mult of_int_numeral)
  then show ?thesis by (simp add: field_simps)
qed

lemma encode_grid:
  assumes "0 \<le> k"
  shows "convertPrice_of_double (of_int k / 256) =
           to_string_nat (nat (k div 256)) @ ''-''
           @ (if (k mod 256) div 8 < 10 then ''0'' else [])
           @ to_string_nat (nat ((k mod 256) div 8)) @ to_string_nat (nat ((k mod 256) mod 8))"
proof -
  have t: "0 \<le> k mod 256" by simp
  have i: "0 \<le> k div 256" using assms by (simp add: pos_imp_zdiv_nonneg_iff)
  have xy: "0 \<le> (k mod 256) div 8" by (simp add: pos_imp_zdiv_nonneg_iff)
  have "\<not> k div 256 < 0" using i by simp
  then show ?thesis
    unfolding convertPrice_of_double_def Let_def grid_floor grid_fraction cround_of_int[OF t]
      cdiv_nonneg[OF t, of 8, simplified] cmod_nonneg[OF t, of 8, simplified] to_string_def
    using xy by (simp add: not_less)
qed

text \<open>
  C3 as stated fails: the encoder writes the eighths digit of \<open>99 + 16/32 + 4/256\<close> as
  the plain digit 4, so the string is \<open>99-164\<close> and not \<open>99-16+\<close>; and the decoder leaves
  a final \<open>+\<close> as it is and passes it to \<open>stod\<close>, which throws.
\<close>

theorem price_plus_counterexample:
  "convertPrice_of_double (99 + 16 / 32 + 4 / 256) \<noteq> ''99-16+''
   \<and> convertPrice_of_string ''99-16+'' \<noteq> Inr (99 + 16 / 32 + 4 / 256)"
proof -
  have g: "(99 + 16 / 32 + 4 / 256 :: rat) = of_int 25476 / 256" by simp
  have "convertPrice_of_double (99 + 16 / 32 + 4 / 256) = ''99-164''"
    unfolding g by (subst encode_grid) (simp_all add: digit_char_def to_string_nat.simps)
  moreover have "convertPrice_of_string ''99-16+'' = Inl Invalid_argument"
    by (simp add: convertPrice_of_string_def substr_def bind_result_def stod_def read_sign_def
      isspace_def isdigit_def digits_val_def digit_val_def)
  ultimately show ?thesis by simp
qed

text \<open>
  C3 as amended. For every price \<open>k/256\<close> with \<open>0 \<le> k/256 < 1000\<close>, decoding the string
  that the encoder produces for it returns the price exactly; the encoding of
  \<open>99 + 16/32 + 4/256\<close> is the string \<open>99-164\<close>.
\<close>

theorem price_round_trip:
  assumes "0 \<le> k" and "k < 256000"
  shows "convertPrice_of_string (convertPrice_of_double (of_int k / 256)) = Inr (of_int k / 256)
       \<and> convertPrice_of_double (99 + 16 / 32 + 4 / 256) = ''99-164''"
proof -
  define I where "I = to_string_nat (nat (k div 256))"
  define xy where "xy = nat ((k mod 256) div 8)"
  define z where "z = nat ((k mod 256) mod 8)"
  define D1 where "D1 = (if xy < 10 then ''0'' else []) @ to_string_nat xy"
  define D2 where "D2 = to_string_nat z"
  have xy32: "xy < 32" unfolding xy_def by simp
  have z8: "z < 8" unfolding z_def by simp
  have enc: "convertPrice_of_double (of_int k / 256) = I @ CHR ''-'' # D1 @ D2"
    unfolding encode_grid[OF assms(1)] I_def D1_def D2_def xy_def z_def
    by (simp add: nat_less_iff)
  have lD1: "length D1 = 2"
    unfolding D1_def using xy32
    by (cases "xy < 10") (simp_all add: length_to_string_nat_1 length_to_string_nat_2)
  have lD2: "length D2 = 1" unfolding D2_def using z8 by (simp add: length_to_string_nat_1)
  have nodash: "CHR ''-'' \<notin> set I" unfolding I_def using to_string_nat_digits by blast
  have dash: "find_char CHR ''-'' (I @ CHR ''-'' # D1 @ D2) = Some (length I)"
    by (rule find_char_after[OF nodash])
  have s1: "substr (I @ CHR ''-'' # D1 @ D2) 0 (length I) = Inr I"
    by (simp add: substr_def)
  have s2: "substr (I @ CHR ''-'' # D1 @ D2) (length I + 1) 2 = Inr D1"
    by (simp add: substr_def lD1)
  have s3: "substr (I @ CHR ''-'' # D1 @ D2) (length I + 3) 1 = Inr D2"
    using lD1 lD2 by (simp add: substr_def)
  have noplus: "D2 \<noteq> ''+''"
    unfolding D2_def using z8 digit_char_props(5)[of z]
    by (subst to_string_nat.simps) simp
  have v1: "stod I = Inr (of_nat (nat (k div 256)))"
    unfolding I_def by (rule stod_to_string_nat)
  have v2: "stod D1 = Inr (of_nat xy)"
    unfolding D1_def by (simp add: stod_to_string_nat stod_padded)
  have v3: "stod D2 = Inr (of_nat z)"
    unfolding D2_def by (rule stod_to_string_nat)
  have i: "0 \<le> k div 256" using assms by (simp add: pos_imp_zdiv_nonneg_iff)
  have parts: "k = 256 * (k div 256) + 8 * ((k mod 256) div 8) + (k mod 256) mod 8"
    by presburger
  have val: "(of_nat (nat (k div 256)) :: rat) + of_nat xy * 1 / 32 + of_nat z * 1 / 256
               = of_int k / 256"
  proof -
    have "(of_nat (nat (k div 256)) :: rat) = of_int (k div 256)" using i by simp
    moreover have "(of_nat xy :: rat) = of_int ((k mod 256) div 8)"
      unfolding xy_def by (simp add: pos_imp_zdiv_nonneg_iff)
    moreover have "(of_nat z :: rat) = of_int ((k mod 256) mod 8)"
      unfolding z_def by simp
    moreover have "(of_int k :: rat) =
        256 * of_int (k div 256) + 8 * of_int ((k mod 256) div 8) + of_int ((k mod 256) mod 8)"
      by (subst parts) (simp only: of_int_add of_int_mult of_int_numeral)
    ultimately show ?thesis by (simp add: field_simps)
  qed
  have dec: "convertPrice_of_string (I @ CHR ''-'' # D1 @ D2) =
               Inr (of_nat (nat (k div 256)) + of_nat xy * 1 / 32 + of_nat z * 1 / 256)"
    unfolding convertPrice_of_string_def dash
    using lD1 lD2 noplus
    by (simp add: s1 s2 s3 bind_result_def v1 v2 v3 del: One_nat_def)
  have rt: "convertPrice_of_string (convertPrice_of_double (of_int k / 256)) = Inr (of_int k / 256)"
    by (simp only: enc dec val)
  have g: "(99 + 16 / 32 + 4 / 256 :: rat) = of_int 25476 / 256" by simp
  have ex: "convertPrice_of_double (99 + 16 / 32 + 4 / 256) = ''99-164''"
    unfolding g by (subst encode_grid) (simp_all add: digit_char_def to_string_nat.simps)
  from rt ex show ?thesis by blast
qed

theorem price_round_trip_witness:
  "(0::int) \<le> 25476 \<and> (25476::int) < 256000
   \<and> convertPrice_of_string (convertPrice_of_double (of_int 25476 / 256)) = Inr (of_int 25476 / 256)"
proof -
  have h1: "(0::int) \<le> 25476" and h2: "(25476::int) < 256000" by simp_all
  from price_round_trip [OF h1 h2]
  have "convertPrice_of_string (convertPrice_of_double (of_int 25476 / 256)) = Inr (of_int 25476 / 256)"
    by (rule conjunct1)
  with h1 h2 show ?thesis by (intro conjI)
qed

end
